theory Spec2Isabelle
  imports Main "HOL-Library.AList"
begin

section \<open>Python values, failures and string conversion\<close>

text \<open>
  A raised exception is its class name and its message. Every \<^verbatim>\<open>raise\<close> of
  \<^verbatim>\<open>tool_registry.py\<close>, and every failure of a library call it makes, is a value of
  this type.
\<close>

datatype exn = Exn (exn_type: string) (exn_msg: string)

definition TypeError :: "string \<Rightarrow> exn" where
  "TypeError msg = Exn ''TypeError'' msg"

definition ValueError :: "string \<Rightarrow> exn" where
  "ValueError msg = Exn ''ValueError'' msg"

definition AttributeError :: "string \<Rightarrow> exn" where
  "AttributeError msg = Exn ''AttributeError'' msg"

text \<open>
  The values that cross the registry's boundary: annotation metadata, tool arguments and
  tool results. \<open>PObj r\<close> stands for an object of any class other than \<^verbatim>\<open>NoneType\<close>,
  \<^verbatim>\<open>bool\<close>, \<^verbatim>\<open>int\<close> and \<^verbatim>\<open>str\<close>; the registry only ever applies \<^verbatim>\<open>str()\<close> and
  \<^verbatim>\<open>isinstance\<close> to such an object, so it is represented by what its \<^verbatim>\<open>__str__\<close> does:
  return a text (\<open>Inr\<close>) or raise (\<open>Inl\<close>).
\<close>

datatype pyval = PNone | PBool bool | PInt int | PStr string | PObj "exn + string"

fun isinstance_str :: "pyval \<Rightarrow> bool" where
  "isinstance_str (PStr s) = True"
| "isinstance_str v = False"

fun isinstance_bool :: "pyval \<Rightarrow> bool" where
  "isinstance_bool (PBool b) = True"
| "isinstance_bool v = False"

definition digit_char :: "nat \<Rightarrow> char" where
  "digit_char d = ''0123456789'' ! d"

fun str_nat :: "nat \<Rightarrow> string" where
  "str_nat n = (if n < 10 then [digit_char n] else str_nat (n div 10) @ [digit_char (n mod 10)])"

declare str_nat.simps [simp del]

definition str_int :: "int \<Rightarrow> string" where
  "str_int i = (if i < 0 then ''-'' @ str_nat (nat (- i)) else str_nat (nat i))"

text \<open>\<^verbatim>\<open>str(v)\<close>: total on the four built-in classes, whatever \<^verbatim>\<open>__str__\<close> does otherwise.\<close>

fun py_str :: "pyval \<Rightarrow> exn + string" where
  "py_str PNone = Inr ''None''"
| "py_str (PBool b) = Inr (if b then ''True'' else ''False'')"
| "py_str (PInt i) = Inr (str_int i)"
| "py_str (PStr s) = Inr s"
| "py_str (PObj r) = r"

text \<open>
  \<^verbatim>\<open>str.strip()\<close> with no argument removes leading and trailing whitespace. Characters
  are bytes here; these are the code points below 256 that Python counts as whitespace.
\<close>

definition is_space :: "char \<Rightarrow> bool" where
  "is_space c = (of_char c \<in> {9, 10, 11, 12, 13, 28, 29, 30, 31, 32, 133, 160 :: nat})"

definition strip :: "string \<Rightarrow> string" where
  "strip s = rev (dropWhile is_space (rev (dropWhile is_space s)))"

section \<open>Callables and their declared parameters\<close>

text \<open>
  The first argument of \<^verbatim>\<open>Annotated[...]\<close>: either a \<^verbatim>\<open>types.GenericAlias\<close> such as
  \<^verbatim>\<open>tuple[int, int]\<close>, given by its \<^verbatim>\<open>str()\<close> rendering, or any other object, given by
  its \<^verbatim>\<open>__name__\<close> attribute when it has one (a class has; \<^verbatim>\<open>int | None\<close> has not).
\<close>

datatype pytype = GenericAlias string | TypeObj "string option"

text \<open>
  A parameter's annotation: \<^verbatim>\<open>inspect.Parameter.empty\<close>, an annotation whose
  \<^verbatim>\<open>get_origin\<close> is not \<^verbatim>\<open>Annotated\<close>, or \<^verbatim>\<open>Annotated[t, m1, ..., mk]\<close> with its
  \<^verbatim>\<open>__origin__\<close> \<open>t\<close> and its \<^verbatim>\<open>__metadata__\<close> tuple.
\<close>

datatype annotation = Empty | NotAnnotated | Annotated pytype "pyval list"

text \<open>The result of calling a tool: a returned value, or an exception with the stack
  entries that \<^verbatim>\<open>traceback\<close> prints for it.\<close>

datatype outcome = Returns pyval | Raises exn "string list"

text \<open>
  A callable as \<^verbatim>\<open>register_tool\<close> and \<^verbatim>\<open>dispatch_tool\<close> see it: \<^verbatim>\<open>__name__\<close>, the result
  of \<^verbatim>\<open>inspect.getdoc\<close> (\<open>None\<close> when there is no documentation text), the ordered
  \<^verbatim>\<open>inspect.signature(func).parameters\<close>, and the effect of calling it with keyword
  arguments. A call binds the arguments and runs the body; it may act on the world outside
  the registry (\<^verbatim>\<open>get_weather\<close> sends an HTTP request), which is the type \<open>'w\<close>. Calls are
  taken to terminate, and tool bodies not to touch the registry.
\<close>

record 'w func =
  dunder_name :: string
  getdoc :: "string option"
  parameters :: "(string \<times> annotation) list"
  call :: "(string \<times> pyval) list \<Rightarrow> 'w \<Rightarrow> outcome \<times> 'w"

section \<open>The object store\<close>

text \<open>
  Dictionaries and lists are mutable objects with an identity; a descriptor handed out
  by reference could be changed by its receiver. They live in a store of cells, addressed
  by position; a new object takes the next position and no cell is ever freed. Strings,
  booleans, integers and \<^verbatim>\<open>None\<close> are immutable and are held by value.
\<close>

type_synonym addr = nat

datatype hval = Atom pyval | Ref addr

datatype hobj = HDict "(string \<times> hval) list" | HList "hval list"

type_synonym store = "hobj list"

text \<open>The structure of an object with its identities forgotten: what \<^verbatim>\<open>==\<close> compares
  and what a display shows.\<close>

datatype tree = TAtom pyval | TDict "(string \<times> tree) list" | TList "tree list"

text \<open>Building a literal: the parts first, then a fresh cell for the container.\<close>

fun alloc :: "tree \<Rightarrow> store \<Rightarrow> hval \<times> store"
  and alloc_list :: "tree list \<Rightarrow> store \<Rightarrow> hval list \<times> store"
  and alloc_items :: "(string \<times> tree) list \<Rightarrow> store \<Rightarrow> (string \<times> hval) list \<times> store"
where
  "alloc (TAtom v) h = (Atom v, h)"
| "alloc (TDict kts) h =
     (case alloc_items kts h of (kvs, h') \<Rightarrow> (Ref (length h'), h' @ [HDict kvs]))"
| "alloc (TList ts) h =
     (case alloc_list ts h of (vs, h') \<Rightarrow> (Ref (length h'), h' @ [HList vs]))"
| "alloc_list [] h = ([], h)"
| "alloc_list (t # ts) h =
     (case alloc t h of (v, h1) \<Rightarrow>
        (case alloc_list ts h1 of (vs, h2) \<Rightarrow> (v # vs, h2)))"
| "alloc_items [] h = ([], h)"
| "alloc_items ((k, t) # kts) h =
     (case alloc t h of (v, h1) \<Rightarrow>
        (case alloc_items kts h1 of (kvs, h2) \<Rightarrow> ((k, v) # kvs, h2)))"

text \<open>
  Reading a structure back from the store, to a nesting depth of at most \<open>n\<close> containers.
  \<open>None\<close>: the structure is deeper than \<open>n\<close> (or cyclic), or a reference dangles.
\<close>

fun value_of :: "nat \<Rightarrow> store \<Rightarrow> hval \<Rightarrow> tree option"
  and values_of :: "nat \<Rightarrow> store \<Rightarrow> hval list \<Rightarrow> tree list option"
  and items_of :: "nat \<Rightarrow> store \<Rightarrow> (string \<times> hval) list \<Rightarrow> (string \<times> tree) list option"
where
  "value_of n h (Atom v) = Some (TAtom v)"
| "value_of 0 h (Ref a) = None"
| "value_of (Suc n) h (Ref a) =
     (if a < length h then
        (case h ! a of
           HDict kvs \<Rightarrow> map_option TDict (items_of n h kvs)
         | HList vs \<Rightarrow> map_option TList (values_of n h vs))
      else None)"
| "values_of n h [] = Some []"
| "values_of n h (v # vs) =
     (case value_of n h v of None \<Rightarrow> None
      | Some t \<Rightarrow> (case values_of n h vs of None \<Rightarrow> None | Some ts \<Rightarrow> Some (t # ts)))"
| "items_of n h [] = Some []"
| "items_of n h ((k, v) # kvs) =
     (case value_of n h v of None \<Rightarrow> None
      | Some t \<Rightarrow> (case items_of n h kvs of None \<Rightarrow> None | Some kts \<Rightarrow> Some ((k, t) # kts)))"

text \<open>The cells that reading \<open>v\<close> to depth \<open>n\<close> visits: the objects reachable from \<open>v\<close>.\<close>

fun addrs :: "nat \<Rightarrow> store \<Rightarrow> hval \<Rightarrow> addr list"
  and addrs_list :: "nat \<Rightarrow> store \<Rightarrow> hval list \<Rightarrow> addr list"
  and addrs_items :: "nat \<Rightarrow> store \<Rightarrow> (string \<times> hval) list \<Rightarrow> addr list"
where
  "addrs n h (Atom v) = []"
| "addrs 0 h (Ref a) = [a]"
| "addrs (Suc n) h (Ref a) =
     a # (if a < length h then
            (case h ! a of
               HDict kvs \<Rightarrow> addrs_items n h kvs
             | HList vs \<Rightarrow> addrs_list n h vs)
          else [])"
| "addrs_list n h [] = []"
| "addrs_list n h (v # vs) = addrs n h v @ addrs_list n h vs"
| "addrs_items n h [] = []"
| "addrs_items n h ((k, v) # kvs) = addrs n h v @ addrs_items n h kvs"

text \<open>
  \<^verbatim>\<open>copy.deepcopy(x)\<close>: traverse the structure of \<open>x\<close> and build it anew from fresh
  objects; immutable values are kept as they are. (The memo table of \<^verbatim>\<open>deepcopy\<close>, which
  preserves sharing and cycles inside \<open>x\<close>, is not modelled: the descriptors built by
  \<^verbatim>\<open>register_tool\<close> are trees.) \<open>None\<close>: the traversal did not finish within depth \<open>n\<close>.
\<close>

definition deepcopy :: "nat \<Rightarrow> hval \<Rightarrow> store \<Rightarrow> (hval \<times> store) option" where
  "deepcopy n x h = (case value_of n h x of None \<Rightarrow> None | Some t \<Rightarrow> Some (alloc t h))"

text \<open>\<^verbatim>\<open>d[k] = v\<close> on the object at \<open>a\<close>: an existing key keeps its position, a new key goes
  last. Only a dictionary takes a string key.\<close>

definition dict_setitem :: "addr \<Rightarrow> string \<Rightarrow> hval \<Rightarrow> store \<Rightarrow> exn + store" where
  "dict_setitem a k v h =
     (if a < length h then
        (case h ! a of
           HDict kvs \<Rightarrow> Inr (h[a := HDict (AList.update k v kvs)])
         | HList vs \<Rightarrow> Inl (TypeError ''list indices must be integers or slices, not str''))
      else Inl (TypeError ''object does not support item assignment''))"

section \<open>The registry\<close>

text \<open>
  The module state: \<^verbatim>\<open>_TOOL_HOOKS\<close> (name to callable, in insertion order),
  \<^verbatim>\<open>_TOOL_DESCRIPTIONS\<close> (the identity of the dictionary the global is bound to), the
  object store, and the world the tools act on.
\<close>

record 'w state =
  TOOL_HOOKS :: "(string \<times> 'w func) list"
  TOOL_DESCRIPTIONS :: addr
  heap :: store
  world :: 'w

definition initial :: "'w \<Rightarrow> 'w state" where
  "initial w = \<lparr>TOOL_HOOKS = [], TOOL_DESCRIPTIONS = 0, heap = [HDict []], world = w\<rparr>"

subsection \<open>Registration\<close>

text \<open>Line 24: \<^verbatim>\<open>str(typ) if isinstance(typ, GenericAlias) else typ.__name__\<close>.\<close>

fun type_tag :: "pytype \<Rightarrow> exn + string" where
  "type_tag (GenericAlias rendering) = Inr rendering"
| "type_tag (TypeObj (Some n)) = Inr n"
| "type_tag (TypeObj None) = Inl (AttributeError ''object has no attribute __name__'')"

text \<open>Line 23: \<^verbatim>\<open>(description, required) = annotation.__metadata__\<close>.\<close>

fun unpack2 :: "pyval list \<Rightarrow> exn + pyval \<times> pyval" where
  "unpack2 [description, required] = Inr (description, required)"
| "unpack2 [] = Inl (ValueError ''not enough values to unpack (expected 2, got 0)'')"
| "unpack2 [m] = Inl (ValueError ''not enough values to unpack (expected 2, got 1)'')"
| "unpack2 ms = Inl (ValueError ''too many values to unpack (expected 2)'')"

text \<open>The body of the loop, lines 17 to 35, for one parameter: the dictionary to append,
  or the exception raised.\<close>

fun param_spec :: "string \<Rightarrow> annotation \<Rightarrow> exn + tree" where
  "param_spec name Empty =
     Inl (TypeError (''Parameter `'' @ name @ ''` missing type annotation''))"
| "param_spec name NotAnnotated =
     Inl (TypeError (''Annotation type for `'' @ name @ ''` must be typing.Annotated''))"
| "param_spec name (Annotated typ metadata) =
     (case unpack2 metadata of
        Inl e \<Rightarrow> Inl e
      | Inr (description, required) \<Rightarrow>
          (case type_tag typ of
             Inl e \<Rightarrow> Inl e
           | Inr typ' \<Rightarrow>
               if \<not> isinstance_str description then
                 Inl (TypeError (''Description for `'' @ name @ ''` must be a string''))
               else if \<not> isinstance_bool required then
                 Inl (TypeError (''Required for `'' @ name @ ''` must be a bool''))
               else
                 Inr (TDict [(''name'', TAtom (PStr name)),
                             (''description'', TAtom description),
                             (''type'', TAtom (PStr typ')),
                             (''required'', TAtom required)])))"

text \<open>The loop of lines 16 to 35 over the parameters in declaration order, appending to
  \<^verbatim>\<open>tool_params\<close>; the first exception ends it.\<close>

fun params_loop :: "(string \<times> annotation) list \<Rightarrow> tree list \<Rightarrow> exn + tree list" where
  "params_loop [] tool_params = Inr tool_params"
| "params_loop ((name, annotation) # rest) tool_params =
     (case param_spec name annotation of
        Inl e \<Rightarrow> Inl e
      | Inr d \<Rightarrow> params_loop rest (tool_params @ [d]))"

definition tool_def :: "string \<Rightarrow> string \<Rightarrow> tree list \<Rightarrow> tree" where
  "tool_def tool_name tool_description tool_params =
     TDict [(''name'', TAtom (PStr tool_name)),
            (''description'', TAtom (PStr tool_description)),
            (''params'', TList tool_params)]"

text \<open>
  \<^verbatim>\<open>register_tool(func)\<close>: the result (\<open>func\<close> itself, as a decorator returns it, or the
  exception) and the state afterwards. \<^verbatim>\<open>inspect.getdoc(func)\<close> is \<^verbatim>\<open>None\<close> for a callable
  without documentation text, and \<^verbatim>\<open>None.strip()\<close> raises. The two stores of lines 43 and
  44 happen in this order. The \<^verbatim>\<open>print\<close> of line 42 is not modelled.
\<close>

definition register_tool :: "'w func \<Rightarrow> 'w state \<Rightarrow> (exn + 'w func) \<times> 'w state" where
  "register_tool func st =
     (let tool_name = dunder_name func in
      case getdoc func of
        None \<Rightarrow> (Inl (AttributeError ''NoneType object has no attribute strip''), st)
      | Some doc \<Rightarrow>
          (let tool_description = strip doc in
           case params_loop (parameters func) [] of
             Inl e \<Rightarrow> (Inl e, st)
           | Inr tool_params \<Rightarrow>
               (case alloc (tool_def tool_name tool_description tool_params) (heap st) of
                  (d, h1) \<Rightarrow>
                    (let st1 = st\<lparr>TOOL_HOOKS := AList.update tool_name func (TOOL_HOOKS st),
                                  heap := h1\<rparr>
                     in case dict_setitem (TOOL_DESCRIPTIONS st) tool_name d h1 of
                          Inl e \<Rightarrow> (Inl e, st1)
                        | Inr h2 \<Rightarrow> (Inr func, st1\<lparr>heap := h2\<rparr>)))))"

subsection \<open>Dispatch\<close>

definition newline :: string where
  "newline = [char_of (10 :: nat)]"

text \<open>\<^verbatim>\<open>traceback.format_exc()\<close> inside the handler: the header, the stack entries, and the
  line of the exception (its class alone when the message is empty).\<close>

definition format_exc :: "exn \<Rightarrow> string list \<Rightarrow> string" where
  "format_exc e stack =
     ''Traceback (most recent call last):'' @ newline @ concat stack @
     (if exn_msg e = [] then exn_type e else exn_type e @ '': '' @ exn_msg e) @ newline"

text \<open>
  \<^verbatim>\<open>dispatch_tool(tool_name, tool_params)\<close>. Only the call of line 53 is inside the
  \<^verbatim>\<open>try\<close>; \<^verbatim>\<open>str(ret)\<close> of line 56 is after it, so an exception of \<^verbatim>\<open>str\<close> reaches the
  caller (\<open>Inl\<close>).
\<close>

definition dispatch_tool ::
  "string \<Rightarrow> (string \<times> pyval) list \<Rightarrow> 'w state \<Rightarrow> (exn + string) \<times> 'w state" where
  "dispatch_tool tool_name tool_params st =
     (case map_of (TOOL_HOOKS st) tool_name of
        None \<Rightarrow> (Inr (''Tool `'' @ tool_name @ ''` not found. Please use a provided tool.''), st)
      | Some tool_call \<Rightarrow>
          (case call tool_call tool_params (world st) of
             (Returns ret, w') \<Rightarrow> (py_str ret, st\<lparr>world := w'\<rparr>)
           | (Raises e stack, w') \<Rightarrow> (py_str (PStr (format_exc e stack)), st\<lparr>world := w'\<rparr>)))"

subsection \<open>The catalogue\<close>

text \<open>\<^verbatim>\<open>copy.deepcopy(_TOOL_DESCRIPTIONS)\<close>: a reference to the copy, and the state with the
  copy's objects in the store.\<close>

definition get_tools :: "nat \<Rightarrow> 'w state \<Rightarrow> (hval \<times> 'w state) option" where
  "get_tools n st =
     (case deepcopy n (Ref (TOOL_DESCRIPTIONS st)) (heap st) of
        None \<Rightarrow> None
      | Some (snapshot, h') \<Rightarrow> Some (snapshot, st\<lparr>heap := h'\<rparr>))"

section \<open>Observations, sequences of calls and example tools\<close>

text \<open>The entries of the dictionary \<^verbatim>\<open>_TOOL_DESCRIPTIONS\<close> is bound to.\<close>

definition descriptions_items :: "'w state \<Rightarrow> (string \<times> hval) list" where
  "descriptions_items st =
     (if TOOL_DESCRIPTIONS st < length (heap st) then
        (case heap st ! TOOL_DESCRIPTIONS st of HDict kvs \<Rightarrow> kvs | HList vs \<Rightarrow> [])
      else [])"

text \<open>\<^verbatim>\<open>_TOOL_DESCRIPTIONS[tool_name]\<close> read as a structure, to depth \<open>n\<close>.\<close>

definition descriptor_of :: "nat \<Rightarrow> 'w state \<Rightarrow> string \<Rightarrow> tree option" where
  "descriptor_of n st tool_name =
     (case map_of (descriptions_items st) tool_name of
        None \<Rightarrow> None
      | Some d \<Rightarrow> value_of n (heap st) d)"

text \<open>The nesting depth of a structure.\<close>

fun depth :: "tree \<Rightarrow> nat"
  and depth_list :: "tree list \<Rightarrow> nat"
  and depth_items :: "(string \<times> tree) list \<Rightarrow> nat"
where
  "depth (TAtom v) = 0"
| "depth (TDict kts) = Suc (depth_items kts)"
| "depth (TList ts) = Suc (depth_list ts)"
| "depth_list [] = 0"
| "depth_list (t # ts) = max (depth t) (depth_list ts)"
| "depth_items [] = 0"
| "depth_items ((k, t) # kts) = max (depth t) (depth_items kts)"

text \<open>A structure of dictionaries, lists, strings and booleans only: no other object,
  so no callable, occurs in it.\<close>

fun plain :: "tree \<Rightarrow> bool"
  and plain_list :: "tree list \<Rightarrow> bool"
  and plain_items :: "(string \<times> tree) list \<Rightarrow> bool"
where
  "plain (TAtom v) = (isinstance_str v \<or> isinstance_bool v)"
| "plain (TDict kts) = plain_items kts"
| "plain (TList ts) = plain_list ts"
| "plain_list [] = True"
| "plain_list (t # ts) = (plain t \<and> plain_list ts)"
| "plain_items [] = True"
| "plain_items ((k, t) # kts) = (plain t \<and> plain_items kts)"

text \<open>A client's use of the module: any sequence of registrations and dispatches.\<close>

datatype 'w request = Register "'w func" | Dispatch string "(string \<times> pyval) list"

fun perform :: "'w request \<Rightarrow> 'w state \<Rightarrow> 'w state" where
  "perform (Register func) st = snd (register_tool func st)"
| "perform (Dispatch tool_name tool_params) st = snd (dispatch_tool tool_name tool_params st)"

fun run :: "'w request list \<Rightarrow> 'w state \<Rightarrow> 'w state" where
  "run [] st = st"
| "run (r # rs) st = run rs (perform r st)"

text \<open>
  The tool of the dispatch round trip: \<^verbatim>\<open>def f(x: Annotated[int, 'a number', True]): return x + 1\<close>,
  called with keyword arguments. Binding fails unless \<open>x\<close> is the only argument; the sum
  is defined for an \<^verbatim>\<open>int\<close> and a \<^verbatim>\<open>bool\<close>. Each call is counted in the world.
\<close>

definition f_body :: "(string \<times> pyval) list \<Rightarrow> nat \<Rightarrow> outcome \<times> nat" where
  "f_body args w =
     (if map fst args = [''x''] then
        (case snd (hd args) of
           PInt i \<Rightarrow> (Returns (PInt (i + 1)), Suc w)
         | PBool b \<Rightarrow> (Returns (PInt ((if b then 1 else 0) + 1)), Suc w)
         | _ \<Rightarrow> (Raises (TypeError ''unsupported operand type(s) for +'')
                   [''  File tools.py, line 2, in f'' @ newline], Suc w))
      else (Raises (TypeError ''f() got unexpected or missing arguments'') [], w))"

definition f :: "nat func" where
  "f = \<lparr>dunder_name = ''f'', getdoc = Some ''Adds one to x.'',
        parameters = [(''x'', Annotated (TypeObj (Some ''int'')) [PStr ''a number'', PBool True])],
        call = f_body\<rparr>"

text \<open>A second callable of the same name, with another body and another parameter list.\<close>

definition f2 :: "nat func" where
  "f2 = \<lparr>dunder_name = ''f'', getdoc = Some ''  Returns its name. '',
         parameters = [(''r'', Annotated (GenericAlias ''tuple[int, int]'') [PStr ''a range'', PBool False]),
                       (''s'', Annotated (TypeObj (Some ''str'')) [PStr ''a text'', PBool True])],
         call = (\<lambda>args w. (Returns (PStr ''f2''), w))\<rparr>"

text \<open>A tool whose result is an object with a \<^verbatim>\<open>__str__\<close> that raises:
  \<^verbatim>\<open>def broken(): return Weird()\<close>.\<close>

definition broken :: "nat func" where
  "broken = \<lparr>dunder_name = ''broken'', getdoc = Some ''Returns an object that cannot be printed.'',
             parameters = [],
             call = (\<lambda>args w. (Returns (PObj (Inl (Exn ''RuntimeError'' ''no text''))), w))\<rparr>"

text \<open>Callables with a defect in their declaration.\<close>

definition one_metadata :: "nat func" where
  "one_metadata = \<lparr>dunder_name = ''one_metadata'', getdoc = Some ''Annotated[int, 'a number'].'',
      parameters = [(''x'', Annotated (TypeObj (Some ''int'')) [PStr ''a number''])],
      call = (\<lambda>args w. (Returns PNone, w))\<rparr>"

definition blank_doc :: "nat func" where
  "blank_doc = \<lparr>dunder_name = ''blank_doc'', getdoc = Some ''   '',
      parameters = [],
      call = (\<lambda>args w. (Returns PNone, w))\<rparr>"

definition no_doc :: "nat func" where
  "no_doc = \<lparr>dunder_name = ''no_doc'', getdoc = None,
      parameters = [],
      call = (\<lambda>args w. (Returns PNone, w))\<rparr>"

definition defective :: "annotation \<Rightarrow> nat func" where
  "defective a = \<lparr>dunder_name = ''defective'', getdoc = Some ''The second parameter is wrong.'',
      parameters = [(''x'', Annotated (TypeObj (Some ''int'')) [PStr ''a number'', PBool True]),
                    (''y'', a)],
      call = (\<lambda>args w. (Returns PNone, w))\<rparr>"

text \<open>
  What every state reached by registrations and dispatches satisfies: \<^verbatim>\<open>_TOOL_DESCRIPTIONS\<close>
  is bound to a dictionary with the keys of \<^verbatim>\<open>_TOOL_HOOKS\<close> in the same order, and each of
  its values is a structure of depth at most three, of strings and booleans, that does
  not contain the dictionary itself.
\<close>

definition registry_ok :: "'w state \<Rightarrow> bool" where
  "registry_ok st \<longleftrightarrow>
     TOOL_DESCRIPTIONS st < length (heap st) \<and>
     (\<exists>kvs. heap st ! TOOL_DESCRIPTIONS st = HDict kvs \<and>
        map fst kvs = map fst (TOOL_HOOKS st) \<and>
        (\<forall>d \<in> snd ` set kvs.
           TOOL_DESCRIPTIONS st \<notin> set (addrs 3 (heap st) d) \<and>
           (\<exists>t. value_of 3 (heap st) d = Some t \<and> plain t)))"

section \<open>Dispatch\<close>

text \<open>
  Claim C3. For a tool name that is not a key of \<^verbatim>\<open>_TOOL_HOOKS\<close>, and any arguments,
  \<^verbatim>\<open>dispatch_tool\<close> returns (and does not raise) the text saying that the tool was not
  found. No tool runs: the world the tools act on is as before; and the registry, both
  mappings with the objects they refer to, is as before.
\<close>

theorem dispatch_tool_not_found:
  assumes "tool_name \<notin> fst ` set (TOOL_HOOKS st)"
  shows "dispatch_tool tool_name tool_params st =
           (Inr (''Tool `'' @ tool_name @ ''` not found. Please use a provided tool.''), st)"
proof -
  from assms have "map_of (TOOL_HOOKS st) tool_name = None"
    by (simp add: map_of_eq_None_iff)
  then show ?thesis
    by (simp add: dispatch_tool_def)
qed

theorem dispatch_tool_not_found_witness:
  "dispatch_tool ''nonexistent_tool'' [] (snd (register_tool f (initial 0))) =
     (Inr ''Tool `nonexistent_tool` not found. Please use a provided tool.'',
      snd (register_tool f (initial 0)))"
proof -
  have "''nonexistent_tool'' \<notin> fst ` set (TOOL_HOOKS (snd (register_tool f (initial 0))))"
    by (simp add: register_tool_def f_def initial_def tool_def_def dict_setitem_def
        Let_def split: prod.splits)
  from dispatch_tool_not_found [OF this, of "[]"] show ?thesis
    by simp
qed

end
